theory Spec2Isabelle
  imports Main
begin

section \<open>Errors and dynamic values\<close>

text \<open>
  The exceptions the two modules raise, named after their Python classes. Every method
  that can raise returns the exception as a value; a method that mutates its object returns
  the object it leaves behind as well, because an exception does not undo earlier
  assignments.
\<close>

datatype error =
    ValueError
  | KeyError
  | TypeError
  | FileNotFoundError
  | NotImplementedError
  | AttributeError
  | TimeoutExpired
  | UnicodeDecodeError
  | OSError

text \<open>The free-form values of a parameter dictionary (\<open>Any\<close> in the annotations).\<close>

datatype pyval =
    VNone
  | VBool bool
  | VInt int
  | VStr string
  | VList "pyval list"

section \<open>command.py: the class Command\<close>

subsection \<open>\<open>str.split(" ")\<close> and \<open>" ".join\<close>\<close>

text \<open>
  \<open>cmd.split(" ")\<close> cuts at every single space and keeps empty fields, so the result
  is never empty: \<open>"".split(" ") == [""]\<close>.
\<close>

fun split_on :: "char \<Rightarrow> string \<Rightarrow> string list" where
  "split_on c [] = [[]]"
| "split_on c (x # xs) =
     (if x = c then [] # split_on c xs
      else (case split_on c xs of
              [] \<Rightarrow> [[x]]
            | w # ws \<Rightarrow> (x # w) # ws))"

fun join_with :: "string \<Rightarrow> string list \<Rightarrow> string" where
  "join_with sep [] = []"
| "join_with sep [w] = w"
| "join_with sep (w # v # ws) = w @ sep @ join_with sep (v # ws)"

subsection \<open>The object\<close>

text \<open>
  \<open>subprocess.Popen\<close> is the operating system's side. Of the handle the class reads only
  \<open>args\<close>; what the child does is not a function of the program, so each call that
  talks to the child takes the child's answer as an argument:
  \<^item> \<open>run\<close> takes what \<open>Popen(...)\<close> does: it raises, or the child starts;
  \<^item> \<open>wait\<close>, \<open>output\<close> and \<open>error\<close> take what
    \<open>communicate(timeout=self._timeout)\<close> does: the timeout expires, or the child has
    exited and handed over its two streams, each of which decodes as UTF-8 or does not.
\<close>

record Popen =
  args :: "string list"
  cwd :: "string option"

datatype decoded = Undecodable | Text string

datatype communicate = Expired | Streams decoded decoded

text \<open>
  The attributes \<open>_cmd\<close>, \<open>_timeout\<close>, \<open>_stdout\<close> and \<open>_stderr\<close> are written
  \<open>priv_cmd\<close> and so on, \<open>process\<close> is \<open>cmd_process\<close>, and the properties \<open>output\<close> and
  \<open>error\<close> are \<open>cmd_output\<close> and \<open>cmd_error\<close>.
\<close>

record Command =
  profile :: string
  priv_cmd :: "string list"
  priv_timeout :: int
  priv_stdout :: "string option"
  priv_stderr :: "string option"
  cmd_process :: "Popen option"

definition build_cmd :: "string \<Rightarrow> string \<Rightarrow> error + string list" where
  "build_cmd prof cmd =
     (if prof = ''local'' then Inr ([] @ split_on CHR '' '' cmd)
      else if prof = ''sge'' then Inr ([''qsub''] @ split_on CHR '' '' cmd)
      else Inl ValueError)"

definition Command_init :: "string \<Rightarrow> string \<Rightarrow> int \<Rightarrow> error + Command" where
  "Command_init cmd prof timeout =
     (case build_cmd prof cmd of
        Inl e \<Rightarrow> Inl e
      | Inr v \<Rightarrow> Inr \<lparr>profile = prof, priv_cmd = v, priv_timeout = timeout,
                      priv_stdout = None, priv_stderr = None, cmd_process = None\<rparr>)"

definition cmd :: "Command \<Rightarrow> string" where
  "cmd self = join_with '' '' (priv_cmd self)"

definition run :: "error option \<Rightarrow> string option \<Rightarrow> Command \<Rightarrow> (error + Popen) \<times> Command" where
  "run os dir self =
     (case os of
        Some e \<Rightarrow> (Inl e, self)
      | None \<Rightarrow>
          (let p = \<lparr>args = priv_cmd self, cwd = dir\<rparr>
           in (Inr p, self\<lparr>cmd_process := Some p\<rparr>)))"

definition wait :: "communicate \<Rightarrow> Command \<Rightarrow> error option \<times> Command" where
  "wait os self =
     (case cmd_process self of
        None \<Rightarrow> (None, self)
      | Some p \<Rightarrow>
          (case os of
             Expired \<Rightarrow> (Some TimeoutExpired, self)
           | Streams out err \<Rightarrow>
               (case err of
                  Undecodable \<Rightarrow> (Some UnicodeDecodeError, self)
                | Text e \<Rightarrow>
                    (case out of
                       Undecodable \<Rightarrow> (Some UnicodeDecodeError, self\<lparr>priv_stderr := Some e\<rparr>)
                     | Text s \<Rightarrow>
                         (None, self\<lparr>priv_stderr := Some e, priv_stdout := Some s\<rparr>)))))"

definition proc_cmd_sync :: "Command \<Rightarrow> error + bool" where
  "proc_cmd_sync self =
     (case cmd_process self of
        None \<Rightarrow> Inl AttributeError
      | Some p \<Rightarrow> (if priv_cmd self = args p then Inr True else Inr False))"

definition cmd_output :: "communicate \<Rightarrow> Command \<Rightarrow> (error + string option) \<times> Command" where
  "cmd_output os self =
     (if priv_stdout self \<noteq> None then (Inr (priv_stdout self), self)
      else (case cmd_process self of
              None \<Rightarrow> (Inl NotImplementedError, self)
            | Some p \<Rightarrow>
                (case os of
                   Expired \<Rightarrow> (Inl TimeoutExpired, self)
                 | Streams out err \<Rightarrow>
                     (case out of
                        Undecodable \<Rightarrow> (Inl UnicodeDecodeError, self)
                      | Text s \<Rightarrow>
                          (case err of
                             Undecodable \<Rightarrow>
                               (Inl UnicodeDecodeError, self\<lparr>priv_stdout := Some s\<rparr>)
                           | Text e \<Rightarrow>
                               (Inr (Some s),
                                self\<lparr>priv_stdout := Some s, priv_stderr := Some e\<rparr>))))))"

definition cmd_error :: "communicate \<Rightarrow> Command \<Rightarrow> (error + string option) \<times> Command" where
  "cmd_error os self =
     (if priv_stderr self \<noteq> None then (Inr (priv_stderr self), self)
      else (case cmd_process self of
              None \<Rightarrow> (Inl NotImplementedError, self)
            | Some p \<Rightarrow>
                (case os of
                   Expired \<Rightarrow> (Inl TimeoutExpired, self)
                 | Streams out err \<Rightarrow>
                     (case out of
                        Undecodable \<Rightarrow> (Inl UnicodeDecodeError, self)
                      | Text s \<Rightarrow>
                          (case err of
                             Undecodable \<Rightarrow>
                               (Inl UnicodeDecodeError, self\<lparr>priv_stdout := Some s\<rparr>)
                           | Text e \<Rightarrow>
                               (Inr (Some e),
                                self\<lparr>priv_stdout := Some s, priv_stderr := Some e\<rparr>))))))"

text \<open>
  \<open>update\<close> assigns \<open>_cmd\<close> first; the warning it emits when the running process is
  stale is the Boolean of the result.
\<close>

definition update :: "string \<Rightarrow> Command \<Rightarrow> (error + bool) \<times> Command" where
  "update new_cmd self =
     (case build_cmd (profile self) new_cmd of
        Inl e \<Rightarrow> (Inl e, self)
      | Inr v \<Rightarrow>
          (let self1 = self\<lparr>priv_cmd := v\<rparr>
           in (case cmd_process self1 of
                 None \<Rightarrow> (Inr False, self1)
               | Some p \<Rightarrow>
                   (case proc_cmd_sync self1 of
                      Inl e \<Rightarrow> (Inl e, self1)
                    | Inr True \<Rightarrow> (Inr False, self1)
                    | Inr False \<Rightarrow>
                        (Inr True,
                         self1\<lparr>priv_stdout := None, priv_stderr := None,
                                cmd_process := None\<rparr>)))))"

text \<open>
  The states a \<open>Command\<close> can be in: the constructor's result, and whatever the methods
  make of a state already reached, for any answer of the operating system. The method
  \<open>log\<close> writes a file and assigns to no attribute, so it adds no state.
\<close>

inductive reachable :: "Command \<Rightarrow> bool" where
  r_init: "Command_init s prof t = Inr c \<Longrightarrow> reachable c"
| r_run: "reachable c \<Longrightarrow> reachable (snd (run os dir c))"
| r_wait: "reachable c \<Longrightarrow> reachable (snd (wait com c))"
| r_output: "reachable c \<Longrightarrow> reachable (snd (cmd_output com c))"
| r_error: "reachable c \<Longrightarrow> reachable (snd (cmd_error com c))"
| r_update: "reachable c \<Longrightarrow> reachable (snd (update s c))"

section \<open>params.py: Input, Output, Parameters, Params and ParamsSet\<close>

subsection \<open>The named tuples\<close>

text \<open>
  \<open>Input\<close> and \<open>Output\<close> are named tuples with the same three fields; they differ
  only in the default of \<open>location\<close>, so one record stands for both (the union the
  source calls \<open>IOType\<close>). The field \<open>datatype\<close> is written \<open>datatype'\<close>. A path is
  the string \<open>str\<close> gives for it; a location given as a plain string and the
  \<open>pathlib.Path\<close> of that string are not told apart.

  Each class overrides \<open>__hash__\<close> with the hash of its first field, and inherits
  \<open>__eq__\<close> from \<open>tuple\<close>: two tuples are equal when all their fields are, which is
  equality of records. The hash of a string is Python's and is a parameter.
\<close>

record IOType =
  datatype' :: string
  format :: "string list"
  location :: "string option"

type_synonym Input = IOType

type_synonym Output = IOType

record Parameters =
  process :: string
  params :: "string \<rightharpoonup> pyval"

definition Input_hash :: "(string \<Rightarrow> int) \<Rightarrow> Input \<Rightarrow> int" where
  "Input_hash str_hash self = str_hash (datatype' self)"

definition Output_hash :: "(string \<Rightarrow> int) \<Rightarrow> Output \<Rightarrow> int" where
  "Output_hash str_hash self = str_hash (datatype' self)"

definition Parameters_hash :: "(string \<Rightarrow> int) \<Rightarrow> Parameters \<Rightarrow> int" where
  "Parameters_hash str_hash self = str_hash (process self)"

subsection \<open>Sets of named tuples\<close>

text \<open>
  A Python \<open>set\<close> holds no two equal elements; the hash only chooses the slot, and
  elements with equal hashes that are not equal are all kept. The model is the list of the
  elements in the order iteration visits them, without repetition:
  \<^item> \<open>s.add(x)\<close> changes nothing when an element equal to \<open>x\<close> is present;
  \<^item> \<open>s.remove(x)\<close> raises \<open>KeyError\<close> when no element equal to \<open>x\<close> is present.

  The order iteration visits the elements in is not specified by Python. Here a new
  element goes to the front; the methods below add an element only just after removing
  the first one with the same hash, whose place the new one then takes.
\<close>

definition set_add :: "'a \<Rightarrow> 'a list \<Rightarrow> 'a list" where
  "set_add x xs = (if x \<in> set xs then xs else x # xs)"

definition set_remove :: "'a \<Rightarrow> 'a list \<Rightarrow> error + 'a list" where
  "set_remove x xs = (if x \<in> set xs then Inr (remove1 x xs) else Inl KeyError)"

subsection \<open>Params\<close>

text \<open>The attribute \<open>output\<close> is written \<open>output'\<close>.\<close>

record Params =
  name :: string
  root :: string
  env :: "string option"
  output_location :: string
  input :: "Input list"
  output' :: "Output list"
  parameters :: "Parameters list"

definition Params_hash :: "(string \<Rightarrow> int) \<Rightarrow> Params \<Rightarrow> int" where
  "Params_hash str_hash self = str_hash (name self)"

text \<open>
  \<open>get\<close> returns an \<open>Input\<close>, an \<open>Output\<close> or a \<open>Parameters\<close>. Its loop returns the
  first element, in iteration order, whose attribute equals the name.
\<close>

datatype element = IOElem IOType | ParamElem Parameters

fun find_elem :: "('a \<Rightarrow> string) \<Rightarrow> string \<Rightarrow> 'a list \<Rightarrow> error + 'a" where
  "find_elem attr nm [] = Inl KeyError"
| "find_elem attr nm (element # rest) =
     (if attr element = nm then Inr element else find_elem attr nm rest)"

definition get :: "Params \<Rightarrow> string \<Rightarrow> string \<Rightarrow> error + element" where
  "get self nm category =
     (if category = ''input'' then map_sum id IOElem (find_elem datatype' nm (input self))
      else if category = ''output'' then
        map_sum id IOElem (find_elem datatype' nm (output' self))
      else if category = ''parameters'' then
        map_sum id ParamElem (find_elem process nm (parameters self))
      else Inl TypeError)"


text \<open>
  The file system is a parameter: which paths exist and which are directories. A path is
  absolute when it starts with a slash.
\<close>

record fsys =
  path_exists :: "string \<Rightarrow> bool"
  path_is_dir :: "string \<Rightarrow> bool"

definition is_absolute :: "string \<Rightarrow> bool" where
  "is_absolute p = (case p of [] \<Rightarrow> False | c # _ \<Rightarrow> c = CHR ''/'')"


fun verify_inputs :: "fsys \<Rightarrow> Input list \<Rightarrow> error option" where
  "verify_inputs fs [] = None"
| "verify_inputs fs (elem # rest) =
     (case location elem of
        None \<Rightarrow> Some ValueError
      | Some l \<Rightarrow>
          (if \<not> path_exists fs l then Some FileNotFoundError else verify_inputs fs rest))"

fun verify_outputs :: "Output list \<Rightarrow> error option" where
  "verify_outputs [] = None"
| "verify_outputs (elem # rest) =
     (case location elem of
        None \<Rightarrow> Some ValueError
      | Some l \<Rightarrow> (if \<not> is_absolute l then Some ValueError else verify_outputs rest))"

definition verify_io :: "fsys \<Rightarrow> Params \<Rightarrow> error option" where
  "verify_io fs self =
     (if \<not> is_absolute (output_location self) then Some ValueError
      else (case verify_inputs fs (input self) of
              Some e \<Rightarrow> Some e
            | None \<Rightarrow> verify_outputs (output' self)))"

text \<open>
  The property \<open>dict\<close>. Its values are of three kinds: the two dictionaries from datatype
  to \<open>str(location)\<close>, the output directory, and a parameter dictionary. A dictionary
  comprehension and the assignments \<open>data[key] = ...\<close> let a later entry replace an
  earlier one with the same key.
\<close>

datatype entry =
    IOMap "string \<rightharpoonup> string"
  | Dir string
  | ParamMap "string \<rightharpoonup> pyval"

definition str_of_location :: "string option \<Rightarrow> string" where
  "str_of_location l = (case l of None \<Rightarrow> ''None'' | Some p \<Rightarrow> p)"

definition io_dict :: "IOType list \<Rightarrow> (string \<rightharpoonup> string)" where
  "io_dict elems =
     foldl (\<lambda>m elem. m(datatype' elem \<mapsto> str_of_location (location elem))) Map.empty elems"

definition Params_dict :: "fsys \<Rightarrow> Params \<Rightarrow> error + (string \<rightharpoonup> entry)" where
  "Params_dict fs self =
     (case verify_io fs self of
        Some e \<Rightarrow> Inl e
      | None \<Rightarrow>
          Inr (foldl (\<lambda>data process_params.
                        data(process process_params \<mapsto> ParamMap (params process_params)))
                 [''input'' \<mapsto> IOMap (io_dict (input self)),
                  ''output'' \<mapsto> IOMap (io_dict (output' self)),
                  ''output_dir'' \<mapsto> Dir (output_location self)]
                 (parameters self)))"

text \<open>
  The user settings \<open>merge\<close> reads: under \<open>input\<close> a list of dictionaries with the keys
  \<open>datatype\<close>, \<open>format\<close> and \<open>location\<close>, under \<open>parameters\<close> a list of free-form
  dictionaries, each of which names its process under the key \<open>process\<close>.
\<close>

record input_override =
  ov_datatype :: string
  ov_format :: "string list"
  ov_location :: "string option"

record user_settings =
  us_input :: "input_override list"
  us_parameters :: "(string \<rightharpoonup> pyval) list"

fun merge_inputs :: "Params \<Rightarrow> input_override list \<Rightarrow> error option \<times> Params" where
  "merge_inputs self [] = (None, self)"
| "merge_inputs self (curr_input # rest) =
     (case get self (ov_datatype curr_input) ''input'' of
        Inl e \<Rightarrow> (Some e, self)
      | Inr (ParamElem _) \<Rightarrow> (Some AttributeError, self)
      | Inr (IOElem io_item) \<Rightarrow>
          (if list_ex (\<lambda>f. f \<notin> set (format io_item)) (ov_format curr_input)
           then (Some ValueError, self)
           else (case set_remove io_item (input self) of
                   Inl e \<Rightarrow> (Some e, self)
                 | Inr removed \<Rightarrow>
                     merge_inputs
                       (self\<lparr>input :=
                          set_add \<lparr>datatype' = datatype' io_item,
                                   format = ov_format curr_input,
                                   location = ov_location curr_input\<rparr> removed\<rparr>)
                       rest)))"

text \<open>
  \<open>curr_params["process"]\<close> raises \<open>KeyError\<close> when the key is missing; a value that is
  not a string equals no record's process, so \<open>get\<close> raises \<open>KeyError\<close> for it as well.
  The new parameter dictionary is \<open>{**param_item.params, **curr_params}\<close>: the whole
  override, its \<open>process\<close> entry included, laid over the old dictionary.
\<close>

fun merge_parameters :: "Params \<Rightarrow> (string \<rightharpoonup> pyval) list \<Rightarrow> error option \<times> Params" where
  "merge_parameters self [] = (None, self)"
| "merge_parameters self (curr_params # rest) =
     (case curr_params ''process'' of
        None \<Rightarrow> (Some KeyError, self)
      | Some (VStr p) \<Rightarrow>
          (case get self p ''parameters'' of
             Inl e \<Rightarrow> (Some e, self)
           | Inr (IOElem _) \<Rightarrow> (Some AttributeError, self)
           | Inr (ParamElem param_item) \<Rightarrow>
               (case set_remove param_item (parameters self) of
                  Inl e \<Rightarrow> (Some e, self)
                | Inr removed \<Rightarrow>
                    merge_parameters
                      (self\<lparr>parameters :=
                         set_add \<lparr>process = process param_item,
                                  params = params param_item ++ curr_params\<rparr> removed\<rparr>)
                      rest))
      | Some _ \<Rightarrow> (Some KeyError, self))"

definition merge :: "Params \<Rightarrow> user_settings \<Rightarrow> error option \<times> Params" where
  "merge self settings =
     (case merge_inputs self (us_input settings) of
        (Some e, self1) \<Rightarrow> (Some e, self1)
      | (None, self1) \<Rightarrow> merge_parameters self1 (us_parameters settings))"



subsection \<open>Constructing a Params from a catalog entry\<close>


record io_item =
  item_datatype :: "string option"
  item_format :: "string list option"
  item_location :: "string option option"
  item_other :: "string list"







subsection \<open>ParamsSet\<close>









subsection \<open>Notation for the claims\<close>


section \<open>Lemmas about Command\<close>

lemma split_on_nonempty: "split_on c s \<noteq> []"
  by (induction s) (auto split: list.splits)

lemma join_split_on: "join_with [c] (split_on c s) = s"
proof (induction s)
  case Nil
  show ?case by simp
next
  case (Cons x xs)
  obtain w ws where sp: "split_on c xs = w # ws"
    using split_on_nonempty [of c xs] by (cases "split_on c xs") auto
  show ?case
  proof (cases "x = c")
    case True
    with Cons sp show ?thesis by simp
  next
    case False
    with Cons sp show ?thesis by (cases ws) auto
  qed
qed

lemma join_qsub: "join_with '' '' (''qsub'' # split_on CHR '' '' s) = ''qsub '' @ s"
proof -
  obtain w ws where sp: "split_on CHR '' '' s = w # ws"
    using split_on_nonempty [of "CHR '' ''" s] by (cases "split_on CHR '' '' s") auto
  have "join_with '' '' (''qsub'' # w # ws) = ''qsub'' @ '' '' @ join_with '' '' (w # ws)"
    by simp
  also have "join_with '' '' (w # ws) = s"
    using join_split_on [of "CHR '' ''" s] sp by simp
  finally show ?thesis using sp by simp
qed

lemma no_process_no_capture:
  "reachable c \<Longrightarrow> cmd_process c = None \<Longrightarrow> priv_stdout c = None \<and> priv_stderr c = None"
proof (induction rule: reachable.induct)
  case (r_init s prof t c)
  then show ?case
    by (auto simp: Command_init_def split: sum.splits)
next
  case (r_run c os dir)
  then show ?case
    by (auto simp: run_def Let_def split: option.splits)
next
  case (r_wait c com)
  then show ?case
    by (auto simp: wait_def split: option.splits communicate.splits decoded.splits)
next
  case (r_output c com)
  then show ?case
    by (auto simp: cmd_output_def split: option.splits communicate.splits decoded.splits if_splits)
next
  case (r_error c com)
  then show ?case
    by (auto simp: cmd_error_def split: option.splits communicate.splits decoded.splits if_splits)
next
  case (r_update c s)
  then show ?case
    by (auto simp: update_def Let_def proc_cmd_sync_def
             split: option.splits sum.splits if_splits bool.splits)
qed

section \<open>Claims about Command\<close>

text \<open>
  C1, as the claim states it, fails: the batch profile of the code is called \<open>sge\<close>, and
  \<open>grid\<close> is one of the profiles \<open>_build_cmd\<close> rejects. Constructing
  \<open>Command("echo hi", "grid")\<close> raises \<open>ValueError\<close> instead of yielding
  \<open>"qsub echo hi"\<close>, while \<open>sge\<close>, which lies outside \<open>{local, grid}\<close>, is accepted.
\<close>

theorem C1_grid_profile_rejected:
  "Command_init ''echo hi'' ''grid'' 1000 = Inl ValueError
   \<and> map_sum id cmd (Command_init ''echo hi'' ''sge'' 1000) = Inr ''qsub echo hi''"
  by (simp add: Command_init_def build_cmd_def cmd_def)

text \<open>
  C1, amended: for every command string, constructing a Command with profile \<open>local\<close>
  yields \<open>cmd\<close> equal to the string unchanged (split at each space and joined again),
  with profile \<open>sge\<close> it yields \<open>qsub\<close> and a space followed by the string, and with any
  profile outside \<open>{local, sge}\<close> the constructor raises \<open>ValueError\<close>.
\<close>

theorem C1_cmd_by_profile:
  "map_sum id cmd (Command_init s ''local'' t) = Inr s
   \<and> map_sum id cmd (Command_init s ''sge'' t) = Inr (''qsub '' @ s)
   \<and> (prof \<notin> {''local'', ''sge''} \<longrightarrow> Command_init s prof t = Inl ValueError)"
proof -
  have "map_sum id cmd (Command_init s ''local'' t) = Inr s"
    using join_split_on [of "CHR '' ''" s]
    by (simp add: Command_init_def build_cmd_def cmd_def)
  moreover have "map_sum id cmd (Command_init s ''sge'' t) = Inr (''qsub '' @ s)"
    using join_qsub [of s]
    by (simp add: Command_init_def build_cmd_def cmd_def)
  moreover have "prof \<notin> {''local'', ''sge''} \<longrightarrow> Command_init s prof t = Inl ValueError"
    by (simp add: Command_init_def build_cmd_def)
  ultimately show ?thesis by blast
qed

theorem C1_cmd_by_profile_witness:
  "''slurm'' \<notin> {''local'', ''sge''}
   \<and> map_sum id cmd (Command_init ''echo  hi '' ''local'' 5) = Inr ''echo  hi ''
   \<and> map_sum id cmd (Command_init ''echo  hi '' ''sge'' 5) = Inr ''qsub echo  hi ''
   \<and> Command_init ''echo  hi '' ''slurm'' 5 = Inl ValueError"
  using C1_cmd_by_profile [of "''echo  hi ''" 5 "''slurm''"] by simp

text \<open>
  C8: when a Command has a process and the child does not exit within the timeout,
  \<open>wait()\<close> raises the timeout error and leaves the object as it was; in particular a
  captured stdout or stderr that was \<open>None\<close> before the call is \<open>None\<close> after it.
\<close>

theorem C8_wait_timeout_keeps_state:
  "cmd_process c = Some p \<Longrightarrow>
     fst (wait Expired c) = Some TimeoutExpired
     \<and> snd (wait Expired c) = c
     \<and> (priv_stdout c = None \<longrightarrow> priv_stdout (snd (wait Expired c)) = None)
     \<and> (priv_stderr c = None \<longrightarrow> priv_stderr (snd (wait Expired c)) = None)"
  by (simp add: wait_def)

theorem C8_wait_timeout_keeps_state_witness:
  "cmd_process \<lparr>profile = ''local'', priv_cmd = [''sleep'', ''9''], priv_timeout = 1,
      priv_stdout = None, priv_stderr = None,
      cmd_process = Some \<lparr>args = [''sleep'', ''9''], cwd = None\<rparr>\<rparr>
     = Some \<lparr>args = [''sleep'', ''9''], cwd = None\<rparr>
   \<and> wait Expired \<lparr>profile = ''local'', priv_cmd = [''sleep'', ''9''], priv_timeout = 1,
      priv_stdout = None, priv_stderr = None,
      cmd_process = Some \<lparr>args = [''sleep'', ''9''], cwd = None\<rparr>\<rparr>
     = (Some TimeoutExpired,
        \<lparr>profile = ''local'', priv_cmd = [''sleep'', ''9''], priv_timeout = 1,
         priv_stdout = None, priv_stderr = None,
         cmd_process = Some \<lparr>args = [''sleep'', ''9''], cwd = None\<rparr>\<rparr>)"
  using C8_wait_timeout_keeps_state
    [of "\<lparr>profile = ''local'', priv_cmd = [''sleep'', ''9''], priv_timeout = 1,
         priv_stdout = None, priv_stderr = None,
         cmd_process = Some \<lparr>args = [''sleep'', ''9''], cwd = None\<rparr>\<rparr>"
        "\<lparr>args = [''sleep'', ''9''], cwd = None\<rparr>"]
  by (simp add: prod_eq_iff)

text \<open>
  C9: on a Command that was never launched (a reachable state with no process), \<open>wait()\<close>
  returns normally, whatever the operating system would answer, and changes nothing, so
  the captured stdout and stderr stay \<open>None\<close>; the accessors \<open>output\<close> and \<open>error\<close>
  raise in that state.
\<close>

theorem C9_wait_without_process:
  "reachable c \<Longrightarrow> cmd_process c = None \<Longrightarrow>
     wait com c = (None, c)
     \<and> priv_stdout c = None \<and> priv_stderr c = None
     \<and> fst (cmd_output com c) = Inl NotImplementedError
     \<and> fst (cmd_error com c) = Inl NotImplementedError"
proof -
  assume r: "reachable c" and n: "cmd_process c = None"
  from no_process_no_capture [OF r n]
  have cap: "priv_stdout c = None" "priv_stderr c = None" by simp_all
  show ?thesis
    using n cap by (simp add: wait_def cmd_output_def cmd_error_def)
qed

theorem C9_wait_without_process_witness:
  "wait (Streams (Text ''out'') (Text ''err''))
      \<lparr>profile = ''local'', priv_cmd = [''echo'', ''hi''], priv_timeout = 1000,
       priv_stdout = None, priv_stderr = None, cmd_process = None\<rparr>
     = (None, \<lparr>profile = ''local'', priv_cmd = [''echo'', ''hi''], priv_timeout = 1000,
              priv_stdout = None, priv_stderr = None, cmd_process = None\<rparr>)
   \<and> fst (cmd_output (Streams (Text ''out'') (Text ''err''))
      \<lparr>profile = ''local'', priv_cmd = [''echo'', ''hi''], priv_timeout = 1000,
       priv_stdout = None, priv_stderr = None, cmd_process = None\<rparr>)
     = Inl NotImplementedError"
proof -
  let ?c = "\<lparr>profile = ''local'', priv_cmd = [''echo'', ''hi''], priv_timeout = 1000,
             priv_stdout = None, priv_stderr = None, cmd_process = None\<rparr>"
  have "Command_init ''echo hi'' ''local'' 1000 = Inr ?c"
    by (simp add: Command_init_def build_cmd_def)
  then have r: "reachable ?c" by (rule r_init)
  have n: "cmd_process ?c = None" by simp
  show ?thesis
    using C9_wait_without_process [OF r n, of "Streams (Text ''out'') (Text ''err'')"]
    by simp
qed

text \<open>
  C10: \<open>proc_cmd_sync()\<close> is partial: on a Command with no process it does not return a
  Boolean but fails on the absent handle (\<open>None.args\<close>, an \<open>AttributeError\<close>); with a
  process it returns whether the argument vector equals the process's arguments.
\<close>

theorem C10_proc_cmd_sync_partial:
  "(cmd_process c = None \<longrightarrow> proc_cmd_sync c = Inl AttributeError)
   \<and> (\<forall>p. cmd_process c = Some p \<longrightarrow> proc_cmd_sync c = Inr (priv_cmd c = args p))"
  by (simp add: proc_cmd_sync_def)

theorem C10_proc_cmd_sync_partial_witness:
  "proc_cmd_sync \<lparr>profile = ''local'', priv_cmd = [''echo'', ''hi''], priv_timeout = 1000,
       priv_stdout = None, priv_stderr = None, cmd_process = None\<rparr> = Inl AttributeError
   \<and> proc_cmd_sync \<lparr>profile = ''local'', priv_cmd = [''echo'', ''ho''], priv_timeout = 1000,
       priv_stdout = None, priv_stderr = None,
       cmd_process = Some \<lparr>args = [''echo'', ''hi''], cwd = None\<rparr>\<rparr> = Inr False"
  using C10_proc_cmd_sync_partial
    [of "\<lparr>profile = ''local'', priv_cmd = [''echo'', ''hi''], priv_timeout = 1000,
         priv_stdout = None, priv_stderr = None, cmd_process = None\<rparr>"]
    C10_proc_cmd_sync_partial
    [of "\<lparr>profile = ''local'', priv_cmd = [''echo'', ''ho''], priv_timeout = 1000,
         priv_stdout = None, priv_stderr = None,
         cmd_process = Some \<lparr>args = [''echo'', ''hi''], cwd = None\<rparr>\<rparr>"]
  by simp

section \<open>Lemmas about Params and ParamsSet\<close>

subsection \<open>Lookup in a set of named tuples\<close>

lemma find_elem_in: "find_elem attr nm xs = Inr e \<Longrightarrow> e \<in> set xs \<and> attr e = nm"
  by (induction xs) (auto split: if_splits)














lemma get_input: "get d nm ''input'' = map_sum id IOElem (find_elem datatype' nm (input d))"
  by (simp add: get_def)



subsection \<open>merge\<close>

lemma merge_inputs_frame:
  "merge_inputs d cs = (r, d1) \<Longrightarrow>
     name d1 = name d \<and> root d1 = root d \<and> env d1 = env d
     \<and> output_location d1 = output_location d
     \<and> output' d1 = output' d \<and> parameters d1 = parameters d"
proof (induction cs arbitrary: d)
  case Nil
  then show ?case by simp
next
  case (Cons c cs)
  show ?case
  proof (cases "find_elem datatype' (ov_datatype c) (input d)")
    case (Inl e)
    with Cons.prems show ?thesis by (simp add: get_input)
  next
    case (Inr io)
    show ?thesis
    proof (cases "list_ex (\<lambda>f. f \<notin> set (format io)) (ov_format c)")
      case True
      with Cons.prems Inr show ?thesis by (simp add: get_input)
    next
      case False
      from Inr have "io \<in> set (input d)" by (auto dest: find_elem_in)
      with Cons.prems Inr False
      have "merge_inputs
              (d\<lparr>input := set_add \<lparr>datatype' = datatype' io, format = ov_format c,
                                  location = ov_location c\<rparr> (remove1 io (input d))\<rparr>) cs
            = (r, d1)"
        by (simp add: get_input set_remove_def)
      from Cons.IH [OF this] show ?thesis by simp
    qed
  qed
qed

lemma merge_inputs_append:
  "merge_inputs d (pre @ cs) =
     (case merge_inputs d pre of
        (Some e, d1) \<Rightarrow> (Some e, d1)
      | (None, d1) \<Rightarrow> merge_inputs d1 cs)"
proof (induction pre arbitrary: d)
  case Nil
  then show ?case by simp
next
  case (Cons c pre)
  show ?case
    by (simp add: Cons.IH split: sum.splits element.splits)
qed


subsection \<open>dict\<close>

lemma foldl_upd_dom:
  "dom (foldl (\<lambda>m e. m(k e \<mapsto> v e)) m0 xs) = dom m0 \<union> k ` set xs"
  by (induction xs arbitrary: m0) auto

lemma foldl_upd_other:
  "key \<notin> k ` set xs \<Longrightarrow> foldl (\<lambda>m e. m(k e \<mapsto> v e)) m0 xs key = m0 key"
  by (induction xs arbitrary: m0) auto

lemma foldl_upd_in:
  "key \<in> k ` set xs \<Longrightarrow>
     \<exists>e \<in> set xs. k e = key \<and> foldl (\<lambda>m e. m(k e \<mapsto> v e)) m0 xs key = Some (v e)"
proof (induction xs arbitrary: m0)
  case Nil
  then show ?case by simp
next
  case (Cons x xs)
  show ?case
  proof (cases "key \<in> k ` set xs")
    case True
    from Cons.IH [OF True, of "m0(k x \<mapsto> v x)"] show ?thesis by auto
  next
    case False
    with Cons.prems have kx: "k x = key" by auto
    have "foldl (\<lambda>m e. m(k e \<mapsto> v e)) (m0(k x \<mapsto> v x)) xs key = (m0(k x \<mapsto> v x)) key"
      using False by (rule foldl_upd_other)
    then have "foldl (\<lambda>m e. m(k e \<mapsto> v e)) m0 (x # xs) key = Some (v x)"
      using kx by simp
    then show ?thesis
      using kx by (metis list.set_intros(1))
  qed
qed

lemma verify_inputs_None:
  "verify_inputs fs xs = None \<Longrightarrow> \<forall>e \<in> set xs. \<exists>l. location e = Some l \<and> path_exists fs l"
  by (induction xs) (auto split: option.splits if_splits)

lemma verify_outputs_None:
  "verify_outputs xs = None \<Longrightarrow> \<forall>e \<in> set xs. \<exists>l. location e = Some l \<and> is_absolute l"
  by (induction xs) (auto split: option.splits if_splits)

lemma io_dict_dom: "dom (io_dict xs) = datatype' ` set xs"
  unfolding io_dict_def
  using foldl_upd_dom [of datatype' "\<lambda>e. str_of_location (location e)" Map.empty xs]
  by simp

lemma io_dict_located:
  assumes "\<forall>e \<in> set xs. location e \<noteq> None" and "e \<in> set xs"
  shows "\<exists>e' \<in> set xs. datatype' e' = datatype' e \<and> io_dict xs (datatype' e) = location e'"
proof -
  have "datatype' e \<in> datatype' ` set xs" using assms(2) by simp
  from foldl_upd_in [OF this, of "\<lambda>e. str_of_location (location e)" Map.empty]
  obtain e' where e': "e' \<in> set xs" "datatype' e' = datatype' e"
    "io_dict xs (datatype' e) = Some (str_of_location (location e'))"
    unfolding io_dict_def by auto
  from assms(1) e'(1) obtain l where "location e' = Some l" by auto
  with e' show ?thesis by (auto simp: str_of_location_def)
qed

subsection \<open>attach_to\<close>




subsection \<open>ParamsSet\<close>



section \<open>Claims about Params and ParamsSet\<close>

text \<open>
  C2, as the claim states it, fails: \<open>merge\<close> works through the input overrides one by
  one and replaces an input as soon as its override has passed the format check. When a
  later override is rejected, the earlier ones have already been applied, and the
  \<open>ValueError\<close> leaves the descriptor's input set changed. Here the first override gives
  \<open>otu_table\<close> a location and the second asks \<open>metadata\<close> for a format it does not
  accept.
\<close>

theorem C2_merge_not_atomic:
  "fst (merge
     \<lparr>name = ''sparcc'', root = ''/pipelines/sparcc'', env = None, output_location = ''/out'',
      input = [\<lparr>datatype' = ''otu_table'', format = [''biom''], location = None\<rparr>,
               \<lparr>datatype' = ''metadata'', format = [''json''], location = None\<rparr>],
      output' = [], parameters = []\<rparr>
     \<lparr>us_input = [\<lparr>ov_datatype = ''otu_table'', ov_format = [''biom''],
                    ov_location = Some ''/data/otu.biom''\<rparr>,
                  \<lparr>ov_datatype = ''metadata'', ov_format = [''csv''],
                    ov_location = Some ''/data/meta.csv''\<rparr>],
      us_parameters = []\<rparr>) = Some ValueError
   \<and> input (snd (merge
     \<lparr>name = ''sparcc'', root = ''/pipelines/sparcc'', env = None, output_location = ''/out'',
      input = [\<lparr>datatype' = ''otu_table'', format = [''biom''], location = None\<rparr>,
               \<lparr>datatype' = ''metadata'', format = [''json''], location = None\<rparr>],
      output' = [], parameters = []\<rparr>
     \<lparr>us_input = [\<lparr>ov_datatype = ''otu_table'', ov_format = [''biom''],
                    ov_location = Some ''/data/otu.biom''\<rparr>,
                  \<lparr>ov_datatype = ''metadata'', ov_format = [''csv''],
                    ov_location = Some ''/data/meta.csv''\<rparr>],
      us_parameters = []\<rparr>))
     = [\<lparr>datatype' = ''otu_table'', format = [''biom''], location = Some ''/data/otu.biom''\<rparr>,
        \<lparr>datatype' = ''metadata'', format = [''json''], location = None\<rparr>]
   \<and> snd (merge
     \<lparr>name = ''sparcc'', root = ''/pipelines/sparcc'', env = None, output_location = ''/out'',
      input = [\<lparr>datatype' = ''otu_table'', format = [''biom''], location = None\<rparr>,
               \<lparr>datatype' = ''metadata'', format = [''json''], location = None\<rparr>],
      output' = [], parameters = []\<rparr>
     \<lparr>us_input = [\<lparr>ov_datatype = ''otu_table'', ov_format = [''biom''],
                    ov_location = Some ''/data/otu.biom''\<rparr>,
                  \<lparr>ov_datatype = ''metadata'', ov_format = [''csv''],
                    ov_location = Some ''/data/meta.csv''\<rparr>],
      us_parameters = []\<rparr>)
     \<noteq> \<lparr>name = ''sparcc'', root = ''/pipelines/sparcc'', env = None, output_location = ''/out'',
            input = [\<lparr>datatype' = ''otu_table'', format = [''biom''], location = None\<rparr>,
                     \<lparr>datatype' = ''metadata'', format = [''json''], location = None\<rparr>],
            output' = [], parameters = []\<rparr>"
  by (simp add: merge_def get_def set_remove_def set_add_def)

text \<open>
  C2, amended: when the input overrides before a given one have all been applied and that
  one names a declared datatype and requests a format outside the accepted formats of its
  input (as the overrides before it have left them), \<open>merge\<close> raises the validation
  error (\<open>ValueError\<close>) and the descriptor is left as the overrides before the rejected
  one have made it: its output and parameter sets are unchanged, and the whole descriptor
  is unchanged when the rejected override is the first one.
\<close>

theorem C2_merge_rejects_format:
  assumes "us_input settings = pre @ c # post"
    and "merge_inputs d pre = (None, d1)"
    and "get d1 (ov_datatype c) ''input'' = Inr (IOElem io)"
    and "\<exists>f \<in> set (ov_format c). f \<notin> set (format io)"
  shows "merge d settings = (Some ValueError, d1)
         \<and> output' d1 = output' d \<and> parameters d1 = parameters d
         \<and> (pre = [] \<longrightarrow> d1 = d)"
proof -
  have bad: "list_ex (\<lambda>f. f \<notin> set (format io)) (ov_format c)"
    using assms(4) by (simp add: list_ex_iff)
  have "merge_inputs d1 (c # post) = (Some ValueError, d1)"
    using assms(3) bad by simp
  then have "merge_inputs d (pre @ c # post) = (Some ValueError, d1)"
    using assms(2) by (simp add: merge_inputs_append)
  then have m: "merge d settings = (Some ValueError, d1)"
    using assms(1) by (simp add: merge_def)
  have f: "output' d1 = output' d \<and> parameters d1 = parameters d"
    using merge_inputs_frame [OF assms(2)] by simp
  have "pre = [] \<longrightarrow> d1 = d"
    using assms(2) by auto
  with m f show ?thesis by blast
qed

theorem C2_merge_rejects_format_witness:
  "merge_inputs
     \<lparr>name = ''sparcc'', root = ''/pipelines/sparcc'', env = None, output_location = ''/out'',
      input = [\<lparr>datatype' = ''otu_table'', format = [''biom''], location = None\<rparr>,
               \<lparr>datatype' = ''metadata'', format = [''json''], location = None\<rparr>],
      output' = [], parameters = []\<rparr>
     [\<lparr>ov_datatype = ''otu_table'', ov_format = [''biom''],
       ov_location = Some ''/data/otu.biom''\<rparr>]
   = (None,
      \<lparr>name = ''sparcc'', root = ''/pipelines/sparcc'', env = None, output_location = ''/out'',
       input = [\<lparr>datatype' = ''otu_table'', format = [''biom''],
                 location = Some ''/data/otu.biom''\<rparr>,
                \<lparr>datatype' = ''metadata'', format = [''json''], location = None\<rparr>],
       output' = [], parameters = []\<rparr>)
   \<and> merge
     \<lparr>name = ''sparcc'', root = ''/pipelines/sparcc'', env = None, output_location = ''/out'',
      input = [\<lparr>datatype' = ''otu_table'', format = [''biom''], location = None\<rparr>,
               \<lparr>datatype' = ''metadata'', format = [''json''], location = None\<rparr>],
      output' = [], parameters = []\<rparr>
     \<lparr>us_input = [\<lparr>ov_datatype = ''otu_table'', ov_format = [''biom''],
                    ov_location = Some ''/data/otu.biom''\<rparr>,
                  \<lparr>ov_datatype = ''metadata'', ov_format = [''csv''],
                    ov_location = Some ''/data/meta.csv''\<rparr>],
      us_parameters = []\<rparr>
   = (Some ValueError,
      \<lparr>name = ''sparcc'', root = ''/pipelines/sparcc'', env = None, output_location = ''/out'',
       input = [\<lparr>datatype' = ''otu_table'', format = [''biom''],
                 location = Some ''/data/otu.biom''\<rparr>,
                \<lparr>datatype' = ''metadata'', format = [''json''], location = None\<rparr>],
       output' = [], parameters = []\<rparr>)
   \<and> merge
     \<lparr>name = ''sparcc'', root = ''/pipelines/sparcc'', env = None, output_location = ''/out'',
      input = [\<lparr>datatype' = ''otu_table'', format = [''biom''], location = None\<rparr>,
               \<lparr>datatype' = ''metadata'', format = [''json''], location = None\<rparr>],
      output' = [], parameters = []\<rparr>
     \<lparr>us_input = [\<lparr>ov_datatype = ''metadata'', ov_format = [''csv''],
                    ov_location = Some ''/data/meta.csv''\<rparr>],
      us_parameters = []\<rparr>
   = (Some ValueError,
      \<lparr>name = ''sparcc'', root = ''/pipelines/sparcc'', env = None, output_location = ''/out'',
       input = [\<lparr>datatype' = ''otu_table'', format = [''biom''], location = None\<rparr>,
                \<lparr>datatype' = ''metadata'', format = [''json''], location = None\<rparr>],
       output' = [], parameters = []\<rparr>)"
proof -
  let ?d = "\<lparr>name = ''sparcc'', root = ''/pipelines/sparcc'', env = None, output_location = ''/out'',
      input = [\<lparr>datatype' = ''otu_table'', format = [''biom''], location = None\<rparr>,
               \<lparr>datatype' = ''metadata'', format = [''json''], location = None\<rparr>],
      output' = [], parameters = []\<rparr>"
  let ?d1 = "\<lparr>name = ''sparcc'', root = ''/pipelines/sparcc'', env = None, output_location = ''/out'',
       input = [\<lparr>datatype' = ''otu_table'', format = [''biom''],
                 location = Some ''/data/otu.biom''\<rparr>,
                \<lparr>datatype' = ''metadata'', format = [''json''], location = None\<rparr>],
       output' = [], parameters = []\<rparr>"
  let ?ov1 = "\<lparr>ov_datatype = ''otu_table'', ov_format = [''biom''],
               ov_location = Some ''/data/otu.biom''\<rparr>"
  let ?ov2 = "\<lparr>ov_datatype = ''metadata'', ov_format = [''csv''],
               ov_location = Some ''/data/meta.csv''\<rparr>"
  let ?us = "\<lparr>us_input = [?ov1, ?ov2], us_parameters = []\<rparr>"
  let ?us1 = "\<lparr>us_input = [?ov2], us_parameters = []\<rparr>"
  let ?io = "\<lparr>datatype' = ''metadata'', format = [''json''], location = None\<rparr>"
  have split: "us_input ?us = [?ov1] @ ?ov2 # []" by simp
  have pre: "merge_inputs ?d [?ov1] = (None, ?d1)"
    by (simp add: get_def set_remove_def set_add_def)
  have found: "get ?d1 (ov_datatype ?ov2) ''input'' = Inr (IOElem ?io)"
    by (simp add: get_def)
  have bad: "\<exists>f \<in> set (ov_format ?ov2). f \<notin> set (format ?io)" by simp
  have split1: "us_input ?us1 = [] @ ?ov2 # []" by simp
  have pre1: "merge_inputs ?d [] = (None, ?d)" by simp
  have found1: "get ?d (ov_datatype ?ov2) ''input'' = Inr (IOElem ?io)"
    by (simp add: get_def)
  show ?thesis
    using pre C2_merge_rejects_format [OF split pre found bad]
      C2_merge_rejects_format [OF split1 pre1 found1 bad]
    by blast
qed

text \<open>
  C3, as the claim states it, fails: the mapping \<open>dict\<close> returns is not flat. The input
  and output datatypes are not top-level keys; they are the keys of two nested mappings
  stored under the top-level keys \<open>input\<close> and \<open>output\<close>. For a descriptor with the
  input \<open>otu_table\<close>, the output \<open>network\<close> and no parameters the top-level keys are
  \<open>input\<close>, \<open>output\<close> and \<open>output_dir\<close>, and \<open>otu_table\<close> is not among them.
\<close>

theorem C3_dict_is_nested:
  "verify_io \<lparr>path_exists = (\<lambda>p. True), path_is_dir = (\<lambda>p. True)\<rparr>
     \<lparr>name = ''sparcc'', root = ''/pipelines/sparcc'', env = None, output_location = ''/out'',
      input = [\<lparr>datatype' = ''otu_table'', format = [''biom''],
                location = Some ''/data/otu.biom''\<rparr>],
      output' = [\<lparr>datatype' = ''network'', format = [''json''],
                  location = Some ''/out/network.json''\<rparr>],
      parameters = []\<rparr> = None
   \<and> \<not> isl (Params_dict \<lparr>path_exists = (\<lambda>p. True), path_is_dir = (\<lambda>p. True)\<rparr>
     \<lparr>name = ''sparcc'', root = ''/pipelines/sparcc'', env = None, output_location = ''/out'',
      input = [\<lparr>datatype' = ''otu_table'', format = [''biom''],
                location = Some ''/data/otu.biom''\<rparr>],
      output' = [\<lparr>datatype' = ''network'', format = [''json''],
                  location = Some ''/out/network.json''\<rparr>],
      parameters = []\<rparr>)
   \<and> dom (projr (Params_dict \<lparr>path_exists = (\<lambda>p. True), path_is_dir = (\<lambda>p. True)\<rparr>
     \<lparr>name = ''sparcc'', root = ''/pipelines/sparcc'', env = None, output_location = ''/out'',
      input = [\<lparr>datatype' = ''otu_table'', format = [''biom''],
                location = Some ''/data/otu.biom''\<rparr>],
      output' = [\<lparr>datatype' = ''network'', format = [''json''],
                  location = Some ''/out/network.json''\<rparr>],
      parameters = []\<rparr>)) = {''input'', ''output'', ''output_dir''}
   \<and> ''otu_table'' \<notin> dom (projr (Params_dict \<lparr>path_exists = (\<lambda>p. True), path_is_dir = (\<lambda>p. True)\<rparr>
     \<lparr>name = ''sparcc'', root = ''/pipelines/sparcc'', env = None, output_location = ''/out'',
      input = [\<lparr>datatype' = ''otu_table'', format = [''biom''],
                location = Some ''/data/otu.biom''\<rparr>],
      output' = [\<lparr>datatype' = ''network'', format = [''json''],
                  location = Some ''/out/network.json''\<rparr>],
      parameters = []\<rparr>))"
  by (simp add: Params_dict_def verify_io_def is_absolute_def) auto

text \<open>
  C3, amended: for every Stage Descriptor that passes \<open>verify_io\<close>, \<open>dict\<close> returns a
  mapping whose top-level keys are exactly \<open>input\<close>, \<open>output\<close>, \<open>output_dir\<close> and the
  process names of the parameter records. Each process name holds the param map of a
  record of that name. Unless a process bears the same name, \<open>input\<close> holds a nested
  mapping with exactly one key per declared input datatype, mapped to the location of an
  input of that datatype, \<open>output\<close> holds the like mapping for the outputs, and
  \<open>output_dir\<close> holds the output directory.
\<close>

theorem C3_dict_keys:
  assumes "verify_io fs d = None"
  shows "\<exists>data. Params_dict fs d = Inr data
     \<and> dom data = {''input'', ''output'', ''output_dir''} \<union> process ` set (parameters d)
     \<and> (\<forall>r \<in> set (parameters d). \<exists>r' \<in> set (parameters d).
           process r' = process r \<and> data (process r) = Some (ParamMap (params r')))
     \<and> (''input'' \<notin> process ` set (parameters d) \<longrightarrow>
           data ''input'' = Some (IOMap (io_dict (input d))))
     \<and> (''output'' \<notin> process ` set (parameters d) \<longrightarrow>
           data ''output'' = Some (IOMap (io_dict (output' d))))
     \<and> (''output_dir'' \<notin> process ` set (parameters d) \<longrightarrow>
           data ''output_dir'' = Some (Dir (output_location d)))
     \<and> dom (io_dict (input d)) = datatype' ` set (input d)
     \<and> dom (io_dict (output' d)) = datatype' ` set (output' d)
     \<and> (\<forall>e \<in> set (input d). \<exists>e' \<in> set (input d).
           datatype' e' = datatype' e \<and> io_dict (input d) (datatype' e) = location e')
     \<and> (\<forall>e \<in> set (output' d). \<exists>e' \<in> set (output' d).
           datatype' e' = datatype' e \<and> io_dict (output' d) (datatype' e) = location e')"
proof -
  let ?base = "[''input'' \<mapsto> IOMap (io_dict (input d)),
                ''output'' \<mapsto> IOMap (io_dict (output' d)),
                ''output_dir'' \<mapsto> Dir (output_location d)]"
  let ?data = "foldl (\<lambda>m r. m(process r \<mapsto> ParamMap (params r))) ?base (parameters d)"
  have res: "Params_dict fs d = Inr ?data"
    using assms by (simp add: Params_dict_def)
  have vi: "verify_inputs fs (input d) = None" and vo: "verify_outputs (output' d) = None"
    using assms by (auto simp: verify_io_def split: if_splits option.splits)
  have li: "\<forall>e \<in> set (input d). location e \<noteq> None"
    using verify_inputs_None [OF vi] by auto
  have lo: "\<forall>e \<in> set (output' d). location e \<noteq> None"
    using verify_outputs_None [OF vo] by auto
  have d: "dom ?data = {''input'', ''output'', ''output_dir''} \<union> process ` set (parameters d)"
    using foldl_upd_dom [of process "\<lambda>r. ParamMap (params r)" ?base "parameters d"]
    by auto
  have p: "\<forall>r \<in> set (parameters d). \<exists>r' \<in> set (parameters d).
             process r' = process r \<and> ?data (process r) = Some (ParamMap (params r'))"
  proof
    fix r assume "r \<in> set (parameters d)"
    then have "process r \<in> process ` set (parameters d)" by simp
    from foldl_upd_in [OF this, of "\<lambda>r. ParamMap (params r)" ?base]
    show "\<exists>r' \<in> set (parameters d).
            process r' = process r \<and> ?data (process r) = Some (ParamMap (params r'))"
      by auto
  qed
  have other: "\<And>key. key \<notin> process ` set (parameters d) \<Longrightarrow> ?data key = ?base key"
    by (rule foldl_upd_other)
  have i: "''input'' \<notin> process ` set (parameters d) \<longrightarrow>
             ?data ''input'' = Some (IOMap (io_dict (input d)))"
    using other [of "''input''"] by simp
  have o: "''output'' \<notin> process ` set (parameters d) \<longrightarrow>
             ?data ''output'' = Some (IOMap (io_dict (output' d)))"
    using other [of "''output''"] by simp
  have od: "''output_dir'' \<notin> process ` set (parameters d) \<longrightarrow>
             ?data ''output_dir'' = Some (Dir (output_location d))"
    using other [of "''output_dir''"] by simp
  have ii: "\<forall>e \<in> set (input d). \<exists>e' \<in> set (input d).
           datatype' e' = datatype' e \<and> io_dict (input d) (datatype' e) = location e'"
    using io_dict_located [OF li] by blast
  have oo: "\<forall>e \<in> set (output' d). \<exists>e' \<in> set (output' d).
           datatype' e' = datatype' e \<and> io_dict (output' d) (datatype' e) = location e'"
    using io_dict_located [OF lo] by blast
  show ?thesis
    using res d p i o od ii oo io_dict_dom [of "input d"] io_dict_dom [of "output' d"]
    by blast
qed

theorem C3_dict_keys_witness:
  "verify_io \<lparr>path_exists = (\<lambda>p. True), path_is_dir = (\<lambda>p. True)\<rparr>
     \<lparr>name = ''sparcc'', root = ''/pipelines/sparcc'', env = None, output_location = ''/out'',
      input = [\<lparr>datatype' = ''otu_table'', format = [''biom''],
                location = Some ''/data/otu.biom''\<rparr>],
      output' = [\<lparr>datatype' = ''network'', format = [''json''],
                  location = Some ''/out/network.json''\<rparr>],
      parameters = [\<lparr>process = ''sparcc'', params = [''iterations'' \<mapsto> VInt 5]\<rparr>]\<rparr> = None
   \<and> \<not> isl (Params_dict \<lparr>path_exists = (\<lambda>p. True), path_is_dir = (\<lambda>p. True)\<rparr>
     \<lparr>name = ''sparcc'', root = ''/pipelines/sparcc'', env = None, output_location = ''/out'',
      input = [\<lparr>datatype' = ''otu_table'', format = [''biom''],
                location = Some ''/data/otu.biom''\<rparr>],
      output' = [\<lparr>datatype' = ''network'', format = [''json''],
                  location = Some ''/out/network.json''\<rparr>],
      parameters = [\<lparr>process = ''sparcc'', params = [''iterations'' \<mapsto> VInt 5]\<rparr>]\<rparr>)
   \<and> dom (projr (Params_dict \<lparr>path_exists = (\<lambda>p. True), path_is_dir = (\<lambda>p. True)\<rparr>
     \<lparr>name = ''sparcc'', root = ''/pipelines/sparcc'', env = None, output_location = ''/out'',
      input = [\<lparr>datatype' = ''otu_table'', format = [''biom''],
                location = Some ''/data/otu.biom''\<rparr>],
      output' = [\<lparr>datatype' = ''network'', format = [''json''],
                  location = Some ''/out/network.json''\<rparr>],
      parameters = [\<lparr>process = ''sparcc'', params = [''iterations'' \<mapsto> VInt 5]\<rparr>]\<rparr>))
     = {''input'', ''output'', ''output_dir'', ''sparcc''}
   \<and> projr (Params_dict \<lparr>path_exists = (\<lambda>p. True), path_is_dir = (\<lambda>p. True)\<rparr>
     \<lparr>name = ''sparcc'', root = ''/pipelines/sparcc'', env = None, output_location = ''/out'',
      input = [\<lparr>datatype' = ''otu_table'', format = [''biom''],
                location = Some ''/data/otu.biom''\<rparr>],
      output' = [\<lparr>datatype' = ''network'', format = [''json''],
                  location = Some ''/out/network.json''\<rparr>],
      parameters = [\<lparr>process = ''sparcc'', params = [''iterations'' \<mapsto> VInt 5]\<rparr>]\<rparr>)
      ''output_dir'' = Some (Dir ''/out'')"
proof -
  let ?fs = "\<lparr>path_exists = (\<lambda>p. True), path_is_dir = (\<lambda>p. True)\<rparr>"
  let ?d = "\<lparr>name = ''sparcc'', root = ''/pipelines/sparcc'', env = None, output_location = ''/out'',
      input = [\<lparr>datatype' = ''otu_table'', format = [''biom''],
                location = Some ''/data/otu.biom''\<rparr>],
      output' = [\<lparr>datatype' = ''network'', format = [''json''],
                  location = Some ''/out/network.json''\<rparr>],
      parameters = [\<lparr>process = ''sparcc'', params = [''iterations'' \<mapsto> VInt 5]\<rparr>]\<rparr>"
  have v: "verify_io ?fs ?d = None"
    by (simp add: verify_io_def is_absolute_def)
  have n: "''output_dir'' \<notin> process ` set (parameters ?d)" by simp
  have s: "{''input'', ''output'', ''output_dir''} \<union> process ` set (parameters ?d)
             = {''input'', ''output'', ''output_dir'', ''sparcc''}" by auto
  from C3_dict_keys [OF v] obtain data where
    r: "Params_dict ?fs ?d = Inr data"
    and dm: "dom data = {''input'', ''output'', ''output_dir''} \<union> process ` set (parameters ?d)"
    and od: "''output_dir'' \<notin> process ` set (parameters ?d) \<longrightarrow>
        data ''output_dir'' = Some (Dir (output_location ?d))"
    by (elim exE conjE)
  have od': "data ''output_dir'' = Some (Dir ''/out'')"
    using od n by simp
  have dm': "dom data = {''input'', ''output'', ''output_dir'', ''sparcc''}"
    using dm s by simp
  have "\<not> isl (Params_dict ?fs ?d)" "projr (Params_dict ?fs ?d) = data"
    using r by simp_all
  with v od' dm' show ?thesis by (simp only: simp_thms)
qed

text \<open>
  C4, as the claim states it, fails: only the hash of an IO Descriptor is the hash of its
  datatype. Equality is the equality of named tuples, which compares all three fields, so
  two descriptors with the same datatype and different formats are different elements and
  a set keeps both.
\<close>

theorem C4_same_datatype_both_kept:
  "\<lparr>datatype' = ''otu_table'', format = [''biom''], location = None\<rparr>
     \<noteq> \<lparr>datatype' = ''otu_table'', format = [''tsv''], location = None\<rparr>
   \<and> length (set_add \<lparr>datatype' = ''otu_table'', format = [''biom''], location = None\<rparr>
        (set_add \<lparr>datatype' = ''otu_table'', format = [''tsv''], location = None\<rparr> [])) = 2"
  by (simp add: set_add_def)

text \<open>
  C4, amended: for IO Descriptors the hash is determined by the datatype field alone,
  while equality compares datatype, format and location. Inserting two IO Descriptors
  into an empty set leaves one element when they agree on all three fields and two
  elements otherwise, also when they have the same datatype.
\<close>

theorem C4_hash_by_datatype_equality_by_fields:
  fixes a b :: IOType
  shows "(datatype' a = datatype' b \<longrightarrow>
            Input_hash str_hash a = Input_hash str_hash b
            \<and> Output_hash str_hash a = Output_hash str_hash b)
         \<and> (a = b \<longleftrightarrow> datatype' a = datatype' b \<and> format a = format b \<and> location a = location b)
         \<and> length (set_add b (set_add a [])) = (if a = b then 1 else 2)"
  by (auto simp: Input_hash_def Output_hash_def set_add_def)

theorem C4_hash_by_datatype_equality_by_fields_witness:
  "datatype' \<lparr>datatype' = ''otu_table'', format = [''biom''], location = None\<rparr>
     = datatype' \<lparr>datatype' = ''otu_table'', format = [''tsv''], location = Some ''/data/otu.tsv''\<rparr>
   \<and> Input_hash (\<lambda>s. int (length s)) \<lparr>datatype' = ''otu_table'', format = [''biom''], location = None\<rparr>
     = Input_hash (\<lambda>s. int (length s))
         \<lparr>datatype' = ''otu_table'', format = [''tsv''], location = Some ''/data/otu.tsv''\<rparr>
   \<and> length (set_add \<lparr>datatype' = ''otu_table'', format = [''tsv''], location = Some ''/data/otu.tsv''\<rparr>
        (set_add \<lparr>datatype' = ''otu_table'', format = [''biom''], location = None\<rparr> [])) = 2"
  using C4_hash_by_datatype_equality_by_fields
    [of "\<lparr>datatype' = ''otu_table'', format = [''biom''], location = None\<rparr>"
        "\<lparr>datatype' = ''otu_table'', format = [''tsv''], location = Some ''/data/otu.tsv''\<rparr>"
        "\<lambda>s. int (length s)"]
  by simp









end
